theory Spec2Isabelle
  imports Main "HOL-Library.Word"
begin

section \<open>Values shared by the whole file tun.go\<close>

type_synonym byte = "8 word"
type_synonym bytes = "byte list"

text \<open>
  Go errors. \<open>io.EOF\<close> is one fixed value, recognised by identity (\<open>err == io.EOF\<close>), so it
  has a constructor of its own; \<open>errors.New(msg)\<close> is \<open>ErrorString msg\<close>; \<open>*net.OpError\<close> keeps
  its \<open>Op\<close>, \<open>Net\<close> and \<open>Err\<close> fields (\<open>Source\<close> and \<open>Addr\<close> are always \<open>nil\<close> in this file).
  A Go \<open>error\<close> that may be \<open>nil\<close> is an \<open>err option\<close>, \<open>None\<close> being \<open>nil\<close>.
\<close>

datatype err = EOF | ErrorString string | OpError string string err

text \<open>A non-nil \<open>net.Addr\<close>, known to this file only through its \<open>String()\<close> method.\<close>

datatype net_addr = NetAddr string

fun addr_String :: "net_addr \<Rightarrow> string" where
  "addr_String (NetAddr s) = s"

text \<open>\<open>net.IPv4(a, b, c, d)\<close>, and its dotted-decimal \<open>String()\<close>.\<close>

datatype IP = IPv4 byte byte byte byte

definition digit :: "nat \<Rightarrow> char" where
  "digit n = ''0123456789'' ! (n mod 10)"

fun Itoa_nat :: "nat \<Rightarrow> string" where
  "Itoa_nat n = (if n < 10 then [digit n] else Itoa_nat (n div 10) @ [digit (n mod 10)])"

declare Itoa_nat.simps [simp del]

definition Itoa :: "int \<Rightarrow> string" where
  "Itoa i = (if i < 0 then CHR ''-'' # Itoa_nat (nat (- i)) else Itoa_nat (nat i))"

fun IP_String :: "IP \<Rightarrow> string" where
  "IP_String (IPv4 a b c d) =
     Itoa_nat (unat a) @ ''.'' @ Itoa_nat (unat b) @ ''.'' @ Itoa_nat (unat c) @ ''.'' @ Itoa_nat (unat d)"

declare IP_String.simps [simp del]

text \<open>
  The fields of \<open>ipv4.Header\<close> that tun.go reads. The parser \<open>ipv4.ParseHeader\<close> belongs to
  the library golang.org/x/net/ipv4, not to this repository: the relay takes it as a
  parameter (field \<open>parseHeader\<close> of the environment below).
\<close>

record Header =
  Version :: int
  Len :: int
  TotalLen :: int
  HeaderID :: int
  Flags :: int
  Protocol :: int
  Src :: IP
  Dst :: IP

section \<open>The route table: a \<open>sync.Map\<close> from IP strings to transport addresses\<close>

type_synonym route_table = "string \<rightharpoonup> net_addr"

definition routes_Load :: "route_table \<Rightarrow> string \<Rightarrow> net_addr option" where
  "routes_Load m k = m k"

text \<open>
  \<open>LoadOrStore\<close> returns the existing value and \<open>loaded = true\<close> when the key is present;
  otherwise it stores the given value and returns it with \<open>loaded = false\<close>. The operation
  is atomic, so a concurrent execution is a sequence of such operations.
\<close>

definition routes_LoadOrStore ::
  "route_table \<Rightarrow> string \<Rightarrow> net_addr \<Rightarrow> (net_addr \<times> bool) \<times> route_table" where
  "routes_LoadOrStore m k v =
     (case m k of
        Some actual \<Rightarrow> ((actual, True), m)
      | None \<Rightarrow> ((v, False), m(k \<mapsto> v)))"

section \<open>Buffer pools\<close>

text \<open>
  A \<open>sync.Pool\<close> of byte slices is the list of its idle buffers. \<open>Get\<close> takes an idle buffer,
  or makes a new one with the pool's \<open>New\<close> when none is idle; \<open>Put\<close> adds a buffer to the
  idle ones. The pools \<open>sPool\<close> and \<open>mPool\<close> are declared elsewhere in the repository; the
  size of the buffers that \<open>sPool.New\<close> makes is the parameter \<open>smallBufferSize\<close>.
\<close>

type_synonym pool = "bytes list"

definition pool_Get :: "nat \<Rightarrow> pool \<Rightarrow> bytes \<times> pool" where
  "pool_Get newSize p = (case p of [] \<Rightarrow> (replicate newSize 0, []) | b # rest \<Rightarrow> (b, rest))"

definition pool_Put :: "bytes \<Rightarrow> pool \<Rightarrow> pool" where
  "pool_Put b p = b # p"

section \<open>The relay session: \<open>transportTun\<close>\<close>

text \<open>One line written by \<open>log.Logf\<close> in \<open>transportTun\<close>, with the values it formats
  (\<open>tun.LocalAddr()\<close>, the same in every line, is left out).\<close>

datatype log_line =
    LogTunParseError err
  | LogTunVersionIgnored int
  | LogNoAddress IP IP
  | LogDebugOut net_addr Header
  | LogConnParseError net_addr err
  | LogConnVersionIgnored net_addr int
  | LogDebugIn net_addr Header
  | LogUnexpectedMapping net_addr string net_addr string
  | LogSessionEnd "err option"

text \<open>
  What the session is given and does not change: the library parser, the global \<open>Debug\<close>
  flag, the argument \<open>raddr\<close> (\<open>None\<close> is the \<open>nil\<close> address), and the outcome of each write:
  \<open>connWriteTo k b a\<close> is the error of the call \<open>conn.WriteTo(b, a)\<close> made after \<open>k\<close> earlier
  calls, \<open>tunWrite k b\<close> that of \<open>tun.Write(b)\<close>.
\<close>

record env =
  parseHeader :: "bytes \<Rightarrow> err + Header"
  Debug :: bool
  raddr :: "net_addr option"
  connWriteTo :: "nat \<Rightarrow> bytes \<Rightarrow> net_addr \<Rightarrow> err option"
  tunWrite :: "nat \<Rightarrow> bytes \<Rightarrow> err option"
  smallBufferSize :: nat

text \<open>The state of a pump goroutine: in its loop, holding an error that it is sending on
  \<open>errc\<close>, or returned.\<close>

datatype pump = Running | Sending err | Exited

text \<open>
  The state of one session. \<open>tunIn\<close> and \<open>connIn\<close> are the results that the coming calls of
  \<open>tun.Read\<close> and \<open>conn.ReadFrom\<close> will return, in order (a read on an empty list blocks);
  \<open>tunWrites\<close> and \<open>connWrites\<close> are the calls of \<open>tun.Write\<close> and \<open>conn.WriteTo\<close> made so far;
  \<open>errc\<close> is the buffer of the channel of capacity 1 and \<open>sent\<close> every error sent on it so
  far, oldest first; \<open>result\<close> is \<open>Some r\<close> once \<open>transportTun\<close> has returned \<open>r\<close>.
\<close>

record sess =
  routes :: route_table
  sPool :: pool
  mPool :: pool
  tunIn :: "(err + bytes) list"
  connIn :: "(err + bytes \<times> net_addr) list"
  tunWrites :: "bytes list"
  connWrites :: "(bytes \<times> net_addr) list"
  logs :: "log_line list"
  errc :: "err list"
  sent :: "err list"
  tunPump :: pump
  connPump :: pump
  result :: "err option option"

definition Logf :: "log_line \<Rightarrow> sess \<Rightarrow> sess" where
  "Logf l s = s\<lparr>logs := logs s @ [l]\<rparr>"

definition sPool_Put :: "bytes \<Rightarrow> sess \<Rightarrow> sess" where
  "sPool_Put b s = s\<lparr>sPool := pool_Put b (sPool s)\<rparr>"

definition mPool_Put :: "bytes \<Rightarrow> sess \<Rightarrow> sess" where
  "mPool_Put b s = s\<lparr>mPool := pool_Put b (mPool s)\<rparr>"

text \<open>
  A read of the packet \<open>pkt\<close> into the buffer \<open>b\<close> copies as many bytes as fit and returns
  their number \<open>n\<close>; the slice \<open>b[:n]\<close> is then \<open>take n\<close> of the buffer.
\<close>

definition read_into :: "bytes \<Rightarrow> bytes \<Rightarrow> nat \<times> bytes" where
  "read_into b pkt = (let n = min (length pkt) (length b) in (n, take n pkt @ drop n b))"

text \<open>
  Lines 147-188: one iteration of the pump from the interface to the transport, on the
  result \<open>r\<close> of its \<open>tun.Read\<close>. It returns the error of the inner function. The deferred
  \<open>sPool.Put(b)\<close> runs on every return.
\<close>

definition tun_pump_iter :: "env \<Rightarrow> (err + bytes) \<Rightarrow> sess \<Rightarrow> err option \<times> sess" where
  "tun_pump_iter E r s =
     (case pool_Get (smallBufferSize E) (sPool s) of (b, idle) \<Rightarrow>
        let s0 = s\<lparr>sPool := idle\<rparr> in
        (case r of
           Inl e \<Rightarrow> (Some e, sPool_Put b s0)
         | Inr pkt \<Rightarrow>
             (case read_into b pkt of (n, b1) \<Rightarrow>
                (case parseHeader E (take n b1) of
                   Inl e \<Rightarrow> (Some e, sPool_Put b1 (Logf (LogTunParseError e) s0))
                 | Inr header \<Rightarrow>
                     if Version header \<noteq> 4
                     then (None, sPool_Put b1 (Logf (LogTunVersionIgnored (Version header)) s0))
                     else
                       (case (case routes_Load (routes s0) (IP_String (Dst header)) of
                                Some v \<Rightarrow> Some v
                              | None \<Rightarrow> raddr E) of
                          None \<Rightarrow>
                            (None, sPool_Put b1 (Logf (LogNoAddress (Src header) (Dst header)) s0))
                        | Some addr \<Rightarrow>
                            let s1 = (if Debug E then Logf (LogDebugOut addr header) s0 else s0);
                                w = connWriteTo E (length (connWrites s1)) (take n b1) addr;
                                s2 = s1\<lparr>connWrites := connWrites s1 @ [(take n b1, addr)]\<rparr>
                            in (w, sPool_Put b1 s2))))))"

text \<open>
  Lines 199-237: one iteration of the pump from the transport to the interface, on the
  result \<open>r\<close> of its \<open>conn.ReadFrom\<close>. The buffer comes from \<open>sPool\<close>; the deferred call is
  \<open>mPool.Put(b)\<close>.
\<close>

definition conn_pump_iter ::
  "env \<Rightarrow> (err + bytes \<times> net_addr) \<Rightarrow> sess \<Rightarrow> err option \<times> sess" where
  "conn_pump_iter E r s =
     (case pool_Get (smallBufferSize E) (sPool s) of (b, idle) \<Rightarrow>
        let s0 = s\<lparr>sPool := idle\<rparr> in
        (case r of
           Inl e \<Rightarrow> (Some e, mPool_Put b s0)
         | Inr (pkt, addr) \<Rightarrow>
             (case read_into b pkt of (n, b1) \<Rightarrow>
                (case parseHeader E (take n b1) of
                   Inl e \<Rightarrow> (Some e, mPool_Put b1 (Logf (LogConnParseError addr e) s0))
                 | Inr header \<Rightarrow>
                     if Version header \<noteq> 4
                     then (None, mPool_Put b1
                                   (Logf (LogConnVersionIgnored addr (Version header)) s0))
                     else
                       let s1 = (if Debug E then Logf (LogDebugIn addr header) s0 else s0) in
                       (case routes_LoadOrStore (routes s1) (IP_String (Src header)) addr of
                          ((actual, loaded), m) \<Rightarrow>
                            let s2 = s1\<lparr>routes := m\<rparr>;
                                s3 = (if loaded \<and> addr_String actual \<noteq> addr_String addr
                                      then Logf (LogUnexpectedMapping addr
                                                   (IP_String (Dst header)) addr
                                                   (addr_String actual)) s2
                                      else s2);
                                w = tunWrite E (length (tunWrites s3)) (take n b1);
                                s4 = s3\<lparr>tunWrites := tunWrites s3 @ [take n b1]\<rparr>
                            in (w, mPool_Put b1 s4))))))"

text \<open>
  Lines 145-195 and 197-244: one step of a pump goroutine. In its loop it runs one
  iteration on the next read result, and leaves the loop with the error when there is
  one; then \<open>errc <- err\<close> goes through once the channel's single slot is free, and the
  goroutine returns.
\<close>

definition step_tun :: "env \<Rightarrow> sess \<Rightarrow> sess" where
  "step_tun E s =
     (case tunPump s of
        Running \<Rightarrow>
          (case tunIn s of
             [] \<Rightarrow> s
           | r # rest \<Rightarrow>
               (case tun_pump_iter E r (s\<lparr>tunIn := rest\<rparr>) of
                  (None, s') \<Rightarrow> s'
                | (Some e, s') \<Rightarrow> s'\<lparr>tunPump := Sending e\<rparr>))
      | Sending e \<Rightarrow>
          if length (errc s) < 1
          then s\<lparr>errc := errc s @ [e], sent := sent s @ [e], tunPump := Exited\<rparr>
          else s
      | Exited \<Rightarrow> s)"

definition step_conn :: "env \<Rightarrow> sess \<Rightarrow> sess" where
  "step_conn E s =
     (case connPump s of
        Running \<Rightarrow>
          (case connIn s of
             [] \<Rightarrow> s
           | r # rest \<Rightarrow>
               (case conn_pump_iter E r (s\<lparr>connIn := rest\<rparr>) of
                  (None, s') \<Rightarrow> s'
                | (Some e, s') \<Rightarrow> s'\<lparr>connPump := Sending e\<rparr>))
      | Sending e \<Rightarrow>
          if length (errc s) < 1
          then s\<lparr>errc := errc s @ [e], sent := sent s @ [e], connPump := Exited\<rparr>
          else s
      | Exited \<Rightarrow> s)"

text \<open>
  Lines 246-251: the caller receives one error from \<open>errc\<close>, turns \<open>io.EOF\<close> into \<open>nil\<close>,
  logs and returns. It waits while the channel is empty.
\<close>

definition normalize :: "err \<Rightarrow> err option" where
  "normalize e = (if e = EOF then None else Some e)"

definition step_main :: "sess \<Rightarrow> sess" where
  "step_main s =
     (case result s of
        Some r \<Rightarrow> s
      | None \<Rightarrow>
          (case errc s of
             [] \<Rightarrow> s
           | e # rest \<Rightarrow>
               Logf (LogSessionEnd (normalize e)) (s\<lparr>errc := rest, result := Some (normalize e)\<rparr>)))"

text \<open>
  The two goroutines and the caller run concurrently. A schedule says which of them takes
  the next step; each iteration of a pump touches the shared route table in one atomic
  operation at most, so the iterations of a concurrent run can be placed in one order.
  The pools are shared as well: an iteration takes and gives back its buffer within its
  step, so what is stated about the pools is what one iteration does to them by itself.
\<close>

datatype thread = TunPump | ConnPump | Caller

fun step :: "env \<Rightarrow> thread \<Rightarrow> sess \<Rightarrow> sess" where
  "step E TunPump s = step_tun E s"
| "step E ConnPump s = step_conn E s"
| "step E Caller s = step_main s"

fun run :: "env \<Rightarrow> thread list \<Rightarrow> sess \<Rightarrow> sess" where
  "run E [] s = s"
| "run E (t # ts) s = run E ts (step E t s)"

text \<open>Lines 142-143: the session starts with an empty route table and an empty channel,
  both pumps in their loops.\<close>

definition transportTun :: "pool \<Rightarrow> pool \<Rightarrow> (err + bytes) list \<Rightarrow> (err + bytes \<times> net_addr) list \<Rightarrow> sess" where
  "transportTun sp mp tin cin =
     \<lparr>routes = Map.empty, sPool = sp, mPool = mp, tunIn = tin, connIn = cin,
      tunWrites = [], connWrites = [], logs = [], errc = [], sent = [],
      tunPump = Running, connPump = Running, result = None\<rparr>"

text \<open>
  Names for what one iteration works on, used to state the properties below: the buffer
  that \<open>sPool.Get()\<close> returns and the idle buffers it leaves, the buffer after the read,
  and the slice \<open>b[:n]\<close> that is parsed and forwarded.
\<close>

definition scratch :: "env \<Rightarrow> pool \<Rightarrow> bytes" where
  "scratch E p = fst (pool_Get (smallBufferSize E) p)"

definition idle_rest :: "env \<Rightarrow> pool \<Rightarrow> pool" where
  "idle_rest E p = snd (pool_Get (smallBufferSize E) p)"

definition after_Read :: "bytes \<Rightarrow> bytes \<Rightarrow> bytes" where
  "after_Read b pkt = snd (read_into b pkt)"

definition read_slice :: "env \<Rightarrow> pool \<Rightarrow> bytes \<Rightarrow> bytes" where
  "read_slice E p pkt = (case read_into (scratch E p) pkt of (n, b1) \<Rightarrow> take n b1)"

section \<open>The interface as a connection: \<open>tunConn\<close>\<close>

text \<open>The \<open>water.Interface\<close> is known by its name; a \<open>time.Time\<close> is a number.\<close>

datatype Interface = Interface string

fun ifce_Name :: "Interface \<Rightarrow> string" where
  "ifce_Name (Interface n) = n"

type_synonym Time = int

record tunConn =
  ifce :: Interface
  addr :: net_addr

definition LocalAddr :: "tunConn \<Rightarrow> net_addr" where
  "LocalAddr c = addr c"

text \<open>\<open>RemoteAddr\<close> returns \<open>&net.IPAddr{}\<close>, whose string is empty.\<close>

definition RemoteAddr :: "tunConn \<Rightarrow> net_addr" where
  "RemoteAddr c = NetAddr []"

definition SetDeadline :: "tunConn \<Rightarrow> Time \<Rightarrow> err option" where
  "SetDeadline c t = Some (OpError ''set'' ''tun'' (ErrorString ''deadline not supported''))"

definition SetReadDeadline :: "tunConn \<Rightarrow> Time \<Rightarrow> err option" where
  "SetReadDeadline c t = Some (OpError ''set'' ''tun'' (ErrorString ''deadline not supported''))"

definition SetWriteDeadline :: "tunConn \<Rightarrow> Time \<Rightarrow> err option" where
  "SetWriteDeadline c t = Some (OpError ''set'' ''tun'' (ErrorString ''deadline not supported''))"

section \<open>The listener: \<open>tunListener\<close>\<close>

text \<open>
  A \<open>*net.UDPConn\<close> is known by its local address. The channels \<open>accepted\<close> and \<open>closed\<close>
  carry no value and are only ever closed, so each is open or closed; a receive from a
  closed channel returns at once, a receive from an open one blocks.
\<close>

datatype UDPConn = UDPConn net_addr

datatype chan = Open | Closed

record tunListener =
  conn :: UDPConn
  accepted :: chan
  closed :: chan

text \<open>Lines 297-312, with \<open>net.ResolveUDPAddr\<close> and \<open>net.ListenUDP\<close> as parameters.\<close>

definition TunListener ::
  "(string \<Rightarrow> err + net_addr) \<Rightarrow> (net_addr \<Rightarrow> err + UDPConn) \<Rightarrow> string \<Rightarrow> err + tunListener" where
  "TunListener resolveUDPAddr listenUDP a =
     (case resolveUDPAddr a of
        Inl e \<Rightarrow> Inl e
      | Inr laddr \<Rightarrow>
          (case listenUDP laddr of
             Inl e \<Rightarrow> Inl e
           | Inr c \<Rightarrow> Inr \<lparr>conn = c, accepted = Open, closed = Open\<rparr>))"

text \<open>A call either returns a value or is parked on a channel that is still open.\<close>

datatype 'a call = Returns 'a | Blocks

text \<open>
  Lines 322-326: the second \<open>select\<close> of \<open>Accept\<close>. It has the single case \<open><-l.closed\<close>:
  the call is parked while \<open>closed\<close> is open, and returns the error once it is closed. A
  parked call that is woken up is this function on the later state of the listener.
\<close>

definition Accept_wait :: "tunListener \<Rightarrow> (err + UDPConn) call" where
  "Accept_wait l =
     (case closed l of
        Closed \<Rightarrow> Returns (Inl (ErrorString ''accept on closed listener''))
      | Open \<Rightarrow> Blocks)"

text \<open>Lines 314-327: the first \<open>select\<close> looks at \<open>accepted\<close> only; its \<open>default\<close> case
  closes \<open>accepted\<close> and returns the connection.\<close>

definition Accept :: "tunListener \<Rightarrow> (err + UDPConn) call \<times> tunListener" where
  "Accept l =
     (case accepted l of
        Closed \<Rightarrow> (Accept_wait l, l)
      | Open \<Rightarrow> (Returns (Inr (conn l)), l\<lparr>accepted := Closed\<rparr>))"

definition Addr_of :: "tunListener \<Rightarrow> net_addr" where
  "Addr_of l = (case conn l of UDPConn a \<Rightarrow> a)"

text \<open>Lines 333-341.\<close>

definition Close :: "tunListener \<Rightarrow> err option \<times> tunListener" where
  "Close l =
     (case closed l of
        Closed \<Rightarrow> (Some (ErrorString ''listener has been closed''), l)
      | Open \<Rightarrow> (None, l\<lparr>closed := Closed\<rparr>))"

text \<open>
  A history of the listener: the calls made on it so far, each taken on the state the
  earlier ones left.
\<close>

datatype listener_op = CallAccept | CallClose

fun listener_call :: "listener_op \<Rightarrow> tunListener \<Rightarrow> tunListener" where
  "listener_call CallAccept l = snd (Accept l)"
| "listener_call CallClose l = snd (Close l)"

fun listener_calls :: "listener_op list \<Rightarrow> tunListener \<Rightarrow> tunListener" where
  "listener_calls [] l = l"
| "listener_calls (c # cs) l = listener_calls cs (listener_call c l)"

section \<open>The handler: \<open>tunHandler\<close>\<close>

record TunConfig =
  Name :: string
  Addr :: string
  MTU :: int
  Routes :: "string list"

text \<open>A \<open>*url.Userinfo\<close>; \<open>Password()\<close> returns the password and whether it is set.\<close>

record Userinfo =
  Username :: string
  Password :: "string \<times> bool"

text \<open>The options that tun.go reads; an entry of \<open>Users\<close> may be the \<open>nil\<close> pointer.\<close>

record HandlerOptions =
  Users :: "Userinfo option list"
  TunConfig :: TunConfig

record tunHandler =
  handler_raddr :: string
  options :: HandlerOptions

text \<open>
  The connection given to \<open>Handle\<close> by its dynamic type: one that is a \<open>net.PacketConn\<close>, or
  any other \<open>net.Conn\<close>, of which the handler uses only the local address. The packet
  connection given to the relay is that one, or it wrapped by a cipher.
\<close>

datatype Conn = PacketConnOf UDPConn | OtherConn net_addr

fun Conn_LocalAddr :: "Conn \<Rightarrow> net_addr" where
  "Conn_LocalAddr (PacketConnOf (UDPConn a)) = a"
| "Conn_LocalAddr (OtherConn a) = a"

datatype Cipher = Cipher string

datatype PacketConn = Plain UDPConn | Ciphered Cipher PacketConn

text \<open>
  What the handler calls outside this file, as parameters: \<open>net.ParseCIDR\<close> (its first
  result, for an IPv4 address), \<open>water.New\<close> on the configured name, the closure
  \<open>setup\<close> that runs \<open>/sbin/ip\<close> on its arguments (here \<open>setup_cmd\<close>), the constant
  \<open>DefaultMTU\<close>, \<open>net.ResolveUDPAddr\<close>, \<open>core.PickCipher\<close> on a method and a password, and
  whether the relay started on an interface, a packet connection and a remote address
  returns.
\<close>

record sys =
  ParseCIDR :: "string \<Rightarrow> err + IP"
  water_New :: "string \<Rightarrow> err + Interface"
  setup_cmd :: "string list \<Rightarrow> err option"
  DefaultMTU :: int
  ResolveUDPAddr :: "string \<Rightarrow> err + net_addr"
  PickCipher :: "string \<Rightarrow> string \<Rightarrow> err + Cipher"
  relay_returns :: "tunConn \<Rightarrow> PacketConn \<Rightarrow> net_addr option \<Rightarrow> bool"

text \<open>What \<open>Handle\<close> does that can be seen from outside, in order.\<close>

datatype event =
    EvParseCIDR string
  | EvWaterNew string
  | EvSetup "string list"
  | EvResolveUDPAddr string
  | EvPickCipher string string
  | EvTransportTun tunConn PacketConn "net_addr option"
  | EvLogWrongConnType
  | EvLogCreateTun net_addr err
  | EvLogTunCreated net_addr net_addr
  | EvLogRemoteAddr net_addr net_addr err
  | EvLogCipher net_addr net_addr err
  | EvTunClose
  | EvConnClose
  | EvExit int

text \<open>Lines 94-139: \<open>createTun\<close>, with the calls it makes.\<close>

definition createTun :: "sys \<Rightarrow> tunHandler \<Rightarrow> (err + tunConn) \<times> event list" where
  "createTun S h =
     (let cfg = TunConfig (options h); t1 = [EvParseCIDR (Addr cfg)] in
      case ParseCIDR S (Addr cfg) of
        Inl e \<Rightarrow> (Inl e, t1)
      | Inr ip \<Rightarrow>
          let t2 = t1 @ [EvWaterNew (Name cfg)] in
          (case water_New S (Name cfg) of
             Inl e \<Rightarrow> (Inl e, t2)
           | Inr i \<Rightarrow>
               let mtu = (if MTU cfg \<le> 0 then DefaultMTU S else MTU cfg);
                   a1 = [''link'', ''set'', ''dev'', ifce_Name i, ''mtu'', Itoa mtu];
                   a2 = [''addr'', ''add'', Addr cfg, ''dev'', ifce_Name i];
                   a3 = [''link'', ''set'', ''dev'', ifce_Name i, ''up'']
               in
               (case setup_cmd S a1 of
                  Some e \<Rightarrow> (Inl e, t2 @ [EvSetup a1])
                | None \<Rightarrow>
                    (case setup_cmd S a2 of
                       Some e \<Rightarrow> (Inl e, t2 @ [EvSetup a1, EvSetup a2])
                     | None \<Rightarrow>
                         (case setup_cmd S a3 of
                            Some e \<Rightarrow> (Inl e, t2 @ [EvSetup a1, EvSetup a2, EvSetup a3])
                          | None \<Rightarrow>
                              (Inr \<lparr>ifce = i, addr = NetAddr (IP_String ip)\<rparr>,
                               t2 @ [EvSetup a1, EvSetup a2, EvSetup a3]))))))"

text \<open>
  Lines 53-92: \<open>Handle\<close>. The deferred calls run when it returns, last deferred first:
  \<open>tc.Close()\<close> once the interface exists, then \<open>conn.Close()\<close>, then \<open>os.Exit(0)\<close>. When the
  relay does not return, neither does \<open>Handle\<close>.
\<close>

definition Handle :: "sys \<Rightarrow> tunHandler \<Rightarrow> Conn \<Rightarrow> event list" where
  "Handle S h c =
     (case c of
        OtherConn a \<Rightarrow> [EvLogWrongConnType, EvConnClose, EvExit 0]
      | PacketConnOf uc \<Rightarrow>
          (case createTun S h of
             (Inl e, t) \<Rightarrow> t @ [EvLogCreateTun (Conn_LocalAddr c) e, EvConnClose, EvExit 0]
           | (Inr tc, t) \<Rightarrow>
               let t1 = t @ [EvLogTunCreated (LocalAddr tc) (Conn_LocalAddr c)];
                   deferred = [EvTunClose, EvConnClose, EvExit 0];
                   resolved = (if handler_raddr h \<noteq> []
                               then (case ResolveUDPAddr S (handler_raddr h) of
                                       Inl e \<Rightarrow> Inl e
                                     | Inr a \<Rightarrow> Inr (Some a))
                               else Inr None);
                   t2 = t1 @ (if handler_raddr h \<noteq> []
                              then [EvResolveUDPAddr (handler_raddr h)] else [])
               in
               (case resolved of
                  Inl e \<Rightarrow>
                    t2 @ [EvLogRemoteAddr (LocalAddr tc) (Conn_LocalAddr c) e] @ deferred
                | Inr ra \<Rightarrow>
                    (case (case Users (options h) of
                             Some u # rest \<Rightarrow>
                               (case PickCipher S (Username u) (fst (Password u)) of
                                  Inl e \<Rightarrow> Inl e
                                | Inr cipher \<Rightarrow> Inr (Ciphered cipher (Plain uc)))
                           | others \<Rightarrow> Inr (Plain uc)) of
                       Inl e \<Rightarrow>
                         t2 @ (case Users (options h) of
                                 Some u # rest \<Rightarrow> [EvPickCipher (Username u) (fst (Password u))]
                               | others \<Rightarrow> [])
                            @ [EvLogCipher (LocalAddr tc) (Conn_LocalAddr c) e] @ deferred
                     | Inr pc \<Rightarrow>
                         t2 @ (case Users (options h) of
                                 Some u # rest \<Rightarrow> [EvPickCipher (Username u) (fst (Password u))]
                               | others \<Rightarrow> [])
                            @ [EvTransportTun tc pc ra]
                            @ (if relay_returns S tc pc ra then deferred else [])))))"

section \<open>Concrete inputs\<close>

text \<open>
  A parser to run the relay on concrete packets. It follows what the library routine
  does on a buffer: fewer than 20 bytes is an error, a header length field that exceeds
  the buffer is an error, and otherwise the fields are read from their fixed offsets.
  The properties below hold for any parser given as \<open>parseHeader\<close>; this one only serves
  to evaluate them.
\<close>

definition be16 :: "byte \<Rightarrow> byte \<Rightarrow> int" where
  "be16 hi lo = 256 * int (unat hi) + int (unat lo)"

definition ipv4_ParseHeader :: "bytes \<Rightarrow> err + Header" where
  "ipv4_ParseHeader b =
     (if length b < 20 then Inl (ErrorString ''header too short'')
      else
        let hdrlen = 4 * (unat (b ! 0) mod 16) in
        if length b < hdrlen then Inl (ErrorString ''extension header too short'')
        else Inr \<lparr>Version = int (unat (b ! 0) div 16),
                  Len = int hdrlen,
                  TotalLen = be16 (b ! 2) (b ! 3),
                  HeaderID = be16 (b ! 4) (b ! 5),
                  Flags = be16 (b ! 6) (b ! 7) div 8192,
                  Protocol = int (unat (b ! 9)),
                  Src = IPv4 (b ! 12) (b ! 13) (b ! 14) (b ! 15),
                  Dst = IPv4 (b ! 16) (b ! 17) (b ! 18) (b ! 19)\<rparr>)"

text \<open>An environment in which every write succeeds, with no static remote address.\<close>

definition env0 :: env where
  "env0 = \<lparr>parseHeader = ipv4_ParseHeader, Debug = False, raddr = None,
           connWriteTo = (\<lambda>k b a. None), tunWrite = (\<lambda>k b. None), smallBufferSize = 32\<rparr>"

text \<open>A 20-byte IPv4 header from 10.0.0.9 to 10.0.0.5, the same with version 6, and a
  buffer cut after three bytes.\<close>

definition pkt_v4 :: bytes where
  "pkt_v4 = [0x45, 0, 0, 20, 0, 1, 0, 0, 64, 17, 0, 0, 10, 0, 0, 9, 10, 0, 0, 5]"

definition pkt_v6 :: bytes where
  "pkt_v6 = [0x65, 0, 0, 20, 0, 1, 0, 0, 64, 17, 0, 0, 10, 0, 0, 9, 10, 0, 0, 5]"

definition pkt_short :: bytes where
  "pkt_short = [0x45, 0, 0]"

definition hdr_v4 :: Header where
  "hdr_v4 = \<lparr>Version = 4, Len = 20, TotalLen = 20, HeaderID = 1, Flags = 0, Protocol = 17,
             Src = IPv4 10 0 0 9, Dst = IPv4 10 0 0 5\<rparr>"

definition hdr_v6 :: Header where
  "hdr_v6 = hdr_v4\<lparr>Version := 6\<rparr>"

definition listener0 :: tunListener where
  "listener0 = \<lparr>conn = UDPConn (NetAddr ''0.0.0.0:8421''), accepted = Open, closed = Open\<rparr>"

text \<open>A system in which every call of the handler succeeds, and a handler configured with a
  remote address and one user.\<close>

definition sys0 :: sys where
  "sys0 = \<lparr>ParseCIDR = (\<lambda>a. Inr (IPv4 10 0 0 1)), water_New = (\<lambda>n. Inr (Interface n)),
           setup_cmd = (\<lambda>args. None), DefaultMTU = 1350,
           ResolveUDPAddr = (\<lambda>a. Inr (NetAddr a)), PickCipher = (\<lambda>m p. Inr (Cipher m)),
           relay_returns = (\<lambda>tc pc ra. True)\<rparr>"

definition handler0 :: tunHandler where
  "handler0 = \<lparr>handler_raddr = ''192.0.2.1:8421'',
               options = \<lparr>Users = [Some \<lparr>Username = ''chacha20'', Password = (''secret'', True)\<rparr>],
                          TunConfig = \<lparr>Name = ''tun0'', Addr = ''10.0.0.1/24'', MTU = 0,
                                       Routes = []\<rparr>\<rparr>\<rparr>"

section \<open>The caller's view of the error channel\<close>

text \<open>
  Until the caller has received, every error sent is still in the channel; once it has
  returned, its result is the first error sent, with \<open>io.EOF\<close> turned into \<open>nil\<close>.
\<close>

definition chan_inv :: "sess \<Rightarrow> bool" where
  "chan_inv s =
     (case result s of
        None \<Rightarrow> errc s = sent s
      | Some r \<Rightarrow> sent s \<noteq> [] \<and> r = normalize (hd (sent s)))"

section \<open>What one iteration does, case by case\<close>

lemma read_slice_eq: "read_slice E p pkt = take (length (scratch E p)) pkt"
  by (simp add: read_slice_def read_into_def Let_def min_def)

lemma length_after_Read: "length (after_Read b pkt) = length b"
  by (auto simp: after_Read_def read_into_def Let_def)

lemmas iter_defs = scratch_def idle_rest_def read_slice_def after_Read_def
  sPool_Put_def mPool_Put_def pool_Put_def Logf_def routes_Load_def routes_LoadOrStore_def

lemma tun_iter_read_error:
  "tun_pump_iter E (Inl e) s =
     (Some e, s\<lparr>sPool := scratch E (sPool s) # idle_rest E (sPool s)\<rparr>)"
  by (simp add: tun_pump_iter_def iter_defs case_prod_unfold)

lemma tun_iter_parse_error:
  assumes "parseHeader E (read_slice E (sPool s) pkt) = Inl e"
  shows "tun_pump_iter E (Inr pkt) s =
    (Some e, s\<lparr>sPool := after_Read (scratch E (sPool s)) pkt # idle_rest E (sPool s),
              logs := logs s @ [LogTunParseError e]\<rparr>)"
  using assms by (simp add: tun_pump_iter_def iter_defs case_prod_unfold)

lemma tun_iter_version:
  assumes "parseHeader E (read_slice E (sPool s) pkt) = Inr h" and "Version h \<noteq> 4"
  shows "tun_pump_iter E (Inr pkt) s =
    (None, s\<lparr>sPool := after_Read (scratch E (sPool s)) pkt # idle_rest E (sPool s),
              logs := logs s @ [LogTunVersionIgnored (Version h)]\<rparr>)"
  using assms by (simp add: tun_pump_iter_def iter_defs case_prod_unfold)

lemma tun_iter_no_address:
  assumes "parseHeader E (read_slice E (sPool s) pkt) = Inr h" and "Version h = 4"
    and "routes s (IP_String (Dst h)) = None" and "raddr E = None"
  shows "tun_pump_iter E (Inr pkt) s =
    (None, s\<lparr>sPool := after_Read (scratch E (sPool s)) pkt # idle_rest E (sPool s),
              logs := logs s @ [LogNoAddress (Src h) (Dst h)]\<rparr>)"
  using assms by (simp add: tun_pump_iter_def iter_defs case_prod_unfold)

lemma tun_iter_forward:
  assumes "parseHeader E (read_slice E (sPool s) pkt) = Inr h" and "Version h = 4"
    and "(case routes s (IP_String (Dst h)) of Some v \<Rightarrow> Some v | None \<Rightarrow> raddr E) = Some a"
  shows "tun_pump_iter E (Inr pkt) s =
    (connWriteTo E (length (connWrites s)) (read_slice E (sPool s) pkt) a,
     s\<lparr>sPool := after_Read (scratch E (sPool s)) pkt # idle_rest E (sPool s),
       logs := logs s @ (if Debug E then [LogDebugOut a h] else []),
       connWrites := connWrites s @ [(read_slice E (sPool s) pkt, a)]\<rparr>)"
  using assms by (simp add: tun_pump_iter_def iter_defs case_prod_unfold Let_def)

lemma conn_iter_read_error:
  "conn_pump_iter E (Inl e) s =
     (Some e, s\<lparr>sPool := idle_rest E (sPool s), mPool := scratch E (sPool s) # mPool s\<rparr>)"
  by (simp add: conn_pump_iter_def iter_defs case_prod_unfold)

lemma conn_iter_parse_error:
  assumes "parseHeader E (read_slice E (sPool s) pkt) = Inl e"
  shows "conn_pump_iter E (Inr (pkt, peer)) s =
    (Some e, s\<lparr>sPool := idle_rest E (sPool s),
              mPool := after_Read (scratch E (sPool s)) pkt # mPool s,
              logs := logs s @ [LogConnParseError peer e]\<rparr>)"
  using assms by (simp add: conn_pump_iter_def iter_defs case_prod_unfold)

lemma conn_iter_version:
  assumes "parseHeader E (read_slice E (sPool s) pkt) = Inr h" and "Version h \<noteq> 4"
  shows "conn_pump_iter E (Inr (pkt, peer)) s =
    (None, s\<lparr>sPool := idle_rest E (sPool s),
              mPool := after_Read (scratch E (sPool s)) pkt # mPool s,
              logs := logs s @ [LogConnVersionIgnored peer (Version h)]\<rparr>)"
  using assms by (simp add: conn_pump_iter_def iter_defs case_prod_unfold)

lemma conn_iter_learn:
  assumes "parseHeader E (read_slice E (sPool s) pkt) = Inr h" and "Version h = 4"
  shows "conn_pump_iter E (Inr (pkt, peer)) s =
    (tunWrite E (length (tunWrites s)) (read_slice E (sPool s) pkt),
     s\<lparr>sPool := idle_rest E (sPool s),
       mPool := after_Read (scratch E (sPool s)) pkt # mPool s,
       routes := (case routes s (IP_String (Src h)) of
                    Some actual \<Rightarrow> routes s
                  | None \<Rightarrow> (routes s)(IP_String (Src h) \<mapsto> peer)),
       logs := logs s @ (if Debug E then [LogDebugIn peer h] else []) @
                 (case routes s (IP_String (Src h)) of
                    Some actual \<Rightarrow>
                      if addr_String actual \<noteq> addr_String peer
                      then [LogUnexpectedMapping peer (IP_String (Dst h)) peer (addr_String actual)]
                      else []
                  | None \<Rightarrow> []),
       tunWrites := tunWrites s @ [read_slice E (sPool s) pkt]\<rparr>)"
  using assms
  by (simp add: conn_pump_iter_def iter_defs case_prod_unfold Let_def split: option.splits)

lemma tun_iter_frame:
  "routes (snd (tun_pump_iter E r s)) = routes s"
  "mPool (snd (tun_pump_iter E r s)) = mPool s"
  "tunIn (snd (tun_pump_iter E r s)) = tunIn s"
  "connIn (snd (tun_pump_iter E r s)) = connIn s"
  "tunWrites (snd (tun_pump_iter E r s)) = tunWrites s"
  "errc (snd (tun_pump_iter E r s)) = errc s"
  "sent (snd (tun_pump_iter E r s)) = sent s"
  "tunPump (snd (tun_pump_iter E r s)) = tunPump s"
  "connPump (snd (tun_pump_iter E r s)) = connPump s"
  "result (snd (tun_pump_iter E r s)) = result s"
  by (simp_all add: tun_pump_iter_def iter_defs case_prod_unfold Let_def
      split: sum.splits option.splits)

lemma conn_iter_frame:
  "tunIn (snd (conn_pump_iter E r s)) = tunIn s"
  "connIn (snd (conn_pump_iter E r s)) = connIn s"
  "connWrites (snd (conn_pump_iter E r s)) = connWrites s"
  "errc (snd (conn_pump_iter E r s)) = errc s"
  "sent (snd (conn_pump_iter E r s)) = sent s"
  "tunPump (snd (conn_pump_iter E r s)) = tunPump s"
  "connPump (snd (conn_pump_iter E r s)) = connPump s"
  "result (snd (conn_pump_iter E r s)) = result s"
  by (simp_all add: conn_pump_iter_def iter_defs case_prod_unfold Let_def
      split: sum.splits option.splits)

lemma conn_iter_keeps_route:
  "routes s k = Some a \<Longrightarrow> routes (snd (conn_pump_iter E r s)) k = Some a"
  by (auto simp add: conn_pump_iter_def iter_defs case_prod_unfold Let_def
      split: sum.splits option.splits)


lemma step_tun_keeps_route:
  "routes s k = Some a \<Longrightarrow> routes (step_tun E s) k = Some a"
  by (simp add: step_tun_def case_prod_unfold tun_iter_frame
      split: pump.splits list.splits option.splits)

lemma step_conn_keeps_route:
  "routes s k = Some a \<Longrightarrow> routes (step_conn E s) k = Some a"
  by (simp add: step_conn_def case_prod_unfold conn_iter_keeps_route
      split: pump.splits list.splits option.splits)

lemma step_main_keeps_route:
  "routes (step_main s) = routes s"
  by (simp add: step_main_def Logf_def split: option.splits list.splits)

lemma step_keeps_route:
  "routes s k = Some a \<Longrightarrow> routes (step E t s) k = Some a"
  by (cases t) (simp_all add: step_tun_keeps_route step_conn_keeps_route step_main_keeps_route)

lemma run_keeps_route:
  "routes s k = Some a \<Longrightarrow> routes (run E ts s) k = Some a"
  by (induction ts arbitrary: s) (simp_all add: step_keeps_route)

section \<open>The channel invariant holds along every schedule\<close>

lemma step_tun_chan_inv: "chan_inv s \<Longrightarrow> chan_inv (step_tun E s)"
  by (auto simp add: chan_inv_def step_tun_def case_prod_unfold tun_iter_frame
      split: pump.splits list.splits option.splits)

lemma step_conn_chan_inv: "chan_inv s \<Longrightarrow> chan_inv (step_conn E s)"
  by (auto simp add: chan_inv_def step_conn_def case_prod_unfold conn_iter_frame
      split: pump.splits list.splits option.splits)

lemma step_main_chan_inv: "chan_inv s \<Longrightarrow> chan_inv (step_main s)"
  by (auto simp add: chan_inv_def step_main_def Logf_def
      split: option.splits list.splits)

lemma step_chan_inv: "chan_inv s \<Longrightarrow> chan_inv (step E t s)"
  by (cases t) (simp_all add: step_tun_chan_inv step_conn_chan_inv step_main_chan_inv)

lemma run_chan_inv: "chan_inv s \<Longrightarrow> chan_inv (run E ts s)"
  by (induction ts arbitrary: s) (simp_all add: step_chan_inv)

lemma transportTun_chan_inv: "chan_inv (transportTun sp mp tin cin)"
  by (simp add: chan_inv_def transportTun_def)

section \<open>Evaluation of the concrete inputs\<close>

lemma parse_pkt_v4: "ipv4_ParseHeader pkt_v4 = Inr hdr_v4"
  by (simp add: ipv4_ParseHeader_def pkt_v4_def hdr_v4_def be16_def)

lemma parse_pkt_v6: "ipv4_ParseHeader pkt_v6 = Inr hdr_v6"
  by (simp add: ipv4_ParseHeader_def pkt_v6_def hdr_v6_def hdr_v4_def be16_def)

lemma parse_pkt_short: "ipv4_ParseHeader pkt_short = Inl (ErrorString ''header too short'')"
  by (simp add: ipv4_ParseHeader_def pkt_short_def)

lemma read_slice_env0:
  "read_slice env0 [] pkt_v4 = pkt_v4"
  "read_slice env0 [] pkt_v6 = pkt_v6"
  "read_slice env0 [] pkt_short = pkt_short"
  by (simp_all add: read_slice_eq scratch_def pool_Get_def env0_def pkt_v4_def pkt_v6_def pkt_short_def)

lemma env0_fields:
  "parseHeader env0 = ipv4_ParseHeader" "Debug env0 = False" "raddr env0 = None"
  "connWriteTo env0 k b a = None" "tunWrite env0 k b = None" "smallBufferSize env0 = 32"
  by (simp_all add: env0_def)

lemma IP_String_examples:
  "IP_String (IPv4 10 0 0 5) = ''10.0.0.5''"
  "IP_String (IPv4 10 0 0 9) = ''10.0.0.9''"
  "IP_String (IPv4 10 0 0 1) = ''10.0.0.1''"
  by (simp_all add: IP_String.simps Itoa_nat.simps digit_def)



lemma hdr_fields:
  "Version hdr_v4 = 4" "Src hdr_v4 = IPv4 10 0 0 9" "Dst hdr_v4 = IPv4 10 0 0 5"
  "Version hdr_v6 = 6"
  by (simp_all add: hdr_v4_def hdr_v6_def)

lemma read_slice_raddr: "read_slice (E\<lparr>raddr := x\<rparr>) p pkt = read_slice E p pkt"
  by (simp add: read_slice_def scratch_def)

lemma Itoa_1350: "Itoa 1350 = ''1350''"
  by (simp add: Itoa_def Itoa_nat.simps digit_def)

section \<open>A header that does not parse\<close>




section \<open>An unsupported version\<close>

text \<open>
  Claim C7. When the header parses and its version is not 4, each pump logs the version
  and its iteration returns \<open>nil\<close>: only the pool and the log change (nothing is written
  to the transport or the interface, no route is learned), and the pump stays in its loop
  with the next read. A buffer on which the parser fails has another outcome: its
  iteration returns the parse error.
\<close>

theorem unsupported_version_dropped:
  assumes "parseHeader E (read_slice E (sPool s) pkt) = Inr h" and "Version h \<noteq> 4"
  shows
    "tun_pump_iter E (Inr pkt) s =
       (None, s\<lparr>sPool := after_Read (scratch E (sPool s)) pkt # idle_rest E (sPool s),
                logs := logs s @ [LogTunVersionIgnored (Version h)]\<rparr>)
     \<and> conn_pump_iter E (Inr (pkt, peer)) s =
       (None, s\<lparr>sPool := idle_rest E (sPool s),
                mPool := after_Read (scratch E (sPool s)) pkt # mPool s,
                logs := logs s @ [LogConnVersionIgnored peer (Version h)]\<rparr>)
     \<and> tunPump (step_tun E (s\<lparr>tunPump := Running, tunIn := Inr pkt # rest\<rparr>)) = Running
     \<and> tunIn (step_tun E (s\<lparr>tunPump := Running, tunIn := Inr pkt # rest\<rparr>)) = rest
     \<and> connPump (step_conn E (s\<lparr>connPump := Running, connIn := Inr (pkt, peer) # rest'\<rparr>))
         = Running
     \<and> connIn (step_conn E (s\<lparr>connPump := Running, connIn := Inr (pkt, peer) # rest'\<rparr>))
         = rest'
     \<and> (case parseHeader E (read_slice E (sPool s) pkt') of
           Inl e \<Rightarrow>
             fst (tun_pump_iter E (Inr pkt') s) = Some e
             \<and> fst (tun_pump_iter E (Inr pkt') s) \<noteq> fst (tun_pump_iter E (Inr pkt) s)
             \<and> fst (conn_pump_iter E (Inr (pkt', peer)) s) = Some e
             \<and> fst (conn_pump_iter E (Inr (pkt', peer)) s)
                 \<noteq> fst (conn_pump_iter E (Inr (pkt, peer)) s)
         | Inr h' \<Rightarrow> True)"
proof -
  have t: "tun_pump_iter E (Inr pkt) s' =
      (None, s'\<lparr>sPool := after_Read (scratch E (sPool s)) pkt # idle_rest E (sPool s),
                logs := logs s' @ [LogTunVersionIgnored (Version h)]\<rparr>)"
    if "sPool s' = sPool s" for s'
    using tun_iter_version [of E s' pkt h] assms that by simp
  have c: "conn_pump_iter E (Inr (pkt, peer)) s' =
      (None, s'\<lparr>sPool := idle_rest E (sPool s),
                mPool := after_Read (scratch E (sPool s)) pkt # mPool s',
                logs := logs s' @ [LogConnVersionIgnored peer (Version h)]\<rparr>)"
    if "sPool s' = sPool s" for s'
    using conn_iter_version [of E s' pkt h peer] assms that by simp
  have d: ?thesis if "parseHeader E (read_slice E (sPool s) pkt') = Inl e" for e
    using that tun_iter_parse_error [OF that] conn_iter_parse_error [OF that, of peer]
    by (simp add: t c step_tun_def step_conn_def)
  have r: ?thesis if "parseHeader E (read_slice E (sPool s) pkt') = Inr h'" for h'
    using that by (simp add: t c step_tun_def step_conn_def)
  show ?thesis
    using d r by (cases "parseHeader E (read_slice E (sPool s) pkt')") blast+
qed

text \<open>The property at a header of version 6, against the three-byte buffer.\<close>

theorem unsupported_version_dropped_witness:
  "parseHeader env0 (read_slice env0 (sPool (transportTun [] [] [] [])) pkt_v6) = Inr hdr_v6
   \<and> Version hdr_v6 \<noteq> 4
   \<and> fst (tun_pump_iter env0 (Inr pkt_v6) (transportTun [] [] [] [])) = None
   \<and> logs (snd (tun_pump_iter env0 (Inr pkt_v6) (transportTun [] [] [] [])))
       = [LogTunVersionIgnored 6]
   \<and> connWrites (snd (tun_pump_iter env0 (Inr pkt_v6) (transportTun [] [] [] []))) = []
   \<and> fst (conn_pump_iter env0 (Inr (pkt_v6, NetAddr ''203.0.113.7:9000''))
           (transportTun [] [] [] [])) = None
   \<and> tunWrites (snd (conn_pump_iter env0 (Inr (pkt_v6, NetAddr ''203.0.113.7:9000''))
           (transportTun [] [] [] []))) = []
   \<and> routes (snd (conn_pump_iter env0 (Inr (pkt_v6, NetAddr ''203.0.113.7:9000''))
           (transportTun [] [] [] []))) ''10.0.0.9'' = None
   \<and> fst (tun_pump_iter env0 (Inr pkt_short) (transportTun [] [] [] []))
       = Some (ErrorString ''header too short'')"
proof -
  have p: "parseHeader env0 (read_slice env0 (sPool (transportTun [] [] [] [])) pkt_v6) = Inr hdr_v6"
    by (simp add: transportTun_def read_slice_env0 env0_fields parse_pkt_v6)
  have v: "Version hdr_v6 \<noteq> 4" by (simp add: hdr_fields)
  have q: "parseHeader env0 (read_slice env0 (sPool (transportTun [] [] [] [])) pkt_short)
             = Inl (ErrorString ''header too short'')"
    by (simp add: transportTun_def read_slice_env0 env0_fields parse_pkt_short)
  show ?thesis
    using unsupported_version_dropped [OF p v, of "NetAddr ''203.0.113.7:9000''" "[]" "[]" pkt_short]
      p v q
    by (simp add: transportTun_def hdr_fields)
qed

section \<open>The forwarding address\<close>

text \<open>
  Claim C5. For a packet read from the interface whose header parses with version 4, the
  pump writes the bytes read to the transport at the address that the route table holds
  for the string of the destination IP when there is one, and otherwise at the static
  remote address \<open>raddr\<close>; the iteration returns the result of that write. With neither,
  nothing is written, the missing address is logged, the iteration returns \<open>nil\<close> and the
  pump stays in its loop with the next read.
\<close>

theorem forwarding_address:
  assumes "parseHeader E (read_slice E (sPool s) pkt) = Inr h" and "Version h = 4"
  shows
    "(case routes s (IP_String (Dst h)) of
        Some learned \<Rightarrow>
          connWrites (snd (tun_pump_iter E (Inr pkt) s))
            = connWrites s @ [(read_slice E (sPool s) pkt, learned)]
          \<and> fst (tun_pump_iter E (Inr pkt) s)
            = connWriteTo E (length (connWrites s)) (read_slice E (sPool s) pkt) learned
      | None \<Rightarrow>
          (case raddr E of
             Some static \<Rightarrow>
               connWrites (snd (tun_pump_iter E (Inr pkt) s))
                 = connWrites s @ [(read_slice E (sPool s) pkt, static)]
               \<and> fst (tun_pump_iter E (Inr pkt) s)
                 = connWriteTo E (length (connWrites s)) (read_slice E (sPool s) pkt) static
           | None \<Rightarrow>
               connWrites (snd (tun_pump_iter E (Inr pkt) s)) = connWrites s
               \<and> logs (snd (tun_pump_iter E (Inr pkt) s))
                   = logs s @ [LogNoAddress (Src h) (Dst h)]
               \<and> fst (tun_pump_iter E (Inr pkt) s) = None
               \<and> tunPump (step_tun E (s\<lparr>tunPump := Running, tunIn := Inr pkt # rest\<rparr>))
                   = Running
               \<and> tunIn (step_tun E (s\<lparr>tunPump := Running, tunIn := Inr pkt # rest\<rparr>))
                   = rest))"
proof (cases "routes s (IP_String (Dst h))")
  case (Some learned)
  then show ?thesis
    using tun_iter_forward [OF assms, of learned] by simp
next
  case None
  note no_route = None
  show ?thesis
  proof (cases "raddr E")
    case (Some static)
    then show ?thesis
      using no_route tun_iter_forward [OF assms, of static] by simp
  next
    case None
    have "tun_pump_iter E (Inr pkt) s' =
        (None, s'\<lparr>sPool := after_Read (scratch E (sPool s)) pkt # idle_rest E (sPool s),
                  logs := logs s' @ [LogNoAddress (Src h) (Dst h)]\<rparr>)"
      if "sPool s' = sPool s" "routes s' = routes s" for s'
      using tun_iter_no_address [of E s' pkt h] assms no_route None that by simp
    then show ?thesis
      using no_route None by (simp add: step_tun_def)
  qed
qed

text \<open>The three cases at a packet for 10.0.0.5: a learned route, only a static address,
  and neither.\<close>

theorem forwarding_address_witness:
  "connWrites (snd (tun_pump_iter env0 (Inr pkt_v4)
      ((transportTun [] [] [] [])\<lparr>routes := [''10.0.0.5'' \<mapsto> NetAddr ''198.51.100.2:8421'']\<rparr>)))
     = [(pkt_v4, NetAddr ''198.51.100.2:8421'')]
   \<and> connWrites (snd (tun_pump_iter (env0\<lparr>raddr := Some (NetAddr ''192.0.2.1:8421'')\<rparr>) (Inr pkt_v4)
      (transportTun [] [] [] [])))
     = [(pkt_v4, NetAddr ''192.0.2.1:8421'')]
   \<and> connWrites (snd (tun_pump_iter env0 (Inr pkt_v4) (transportTun [] [] [] []))) = []
   \<and> logs (snd (tun_pump_iter env0 (Inr pkt_v4) (transportTun [] [] [] [])))
     = [LogNoAddress (IPv4 10 0 0 9) (IPv4 10 0 0 5)]
   \<and> fst (tun_pump_iter env0 (Inr pkt_v4) (transportTun [] [] [] [])) = None"
proof -
  have p: "parseHeader env0 (read_slice env0
       (sPool ((transportTun [] [] [] [])\<lparr>routes := [''10.0.0.5'' \<mapsto> NetAddr ''198.51.100.2:8421'']\<rparr>))
       pkt_v4) = Inr hdr_v4"
    by (simp add: transportTun_def read_slice_env0 env0_fields parse_pkt_v4)
  have q: "parseHeader env0 (read_slice env0 (sPool (transportTun [] [] [] [])) pkt_v4) = Inr hdr_v4"
    by (simp add: transportTun_def read_slice_env0 env0_fields parse_pkt_v4)
  have r: "parseHeader (env0\<lparr>raddr := Some (NetAddr ''192.0.2.1:8421'')\<rparr>)
       (read_slice (env0\<lparr>raddr := Some (NetAddr ''192.0.2.1:8421'')\<rparr>)
          (sPool (transportTun [] [] [] [])) pkt_v4) = Inr hdr_v4"
    using q by (simp add: read_slice_raddr)
  have v: "Version hdr_v4 = 4" by (simp add: hdr_fields)
  show ?thesis
    using forwarding_address [OF p v, of "[]"] forwarding_address [OF r v, of "[]"]
      forwarding_address [OF q v, of "[]"]
    by (simp add: transportTun_def hdr_fields IP_String_examples env0_fields
        read_slice_env0 read_slice_raddr)
qed

section \<open>The buffer pools\<close>



section \<open>The route table keeps the first address\<close>

text \<open>
  Claim C2. Take a datagram from the transport whose header parses with version 4. When
  the route table has no address for the string of its source IP, the sender's address
  is stored. When it has one, \<open>LoadOrStore\<close> returns it and leaves the table as it was: a
  sender with another address only adds the line about the unexpected mapping to the log.
  In both cases the address then held for that IP stays the same after any further steps
  of the two pumps and the caller, in any order.
\<close>

theorem first_mapping_retained:
  assumes "parseHeader E (read_slice E (sPool s) pkt) = Inr h" and "Version h = 4"
  shows
    "(case routes s (IP_String (Src h)) of
        None \<Rightarrow>
          routes (snd (conn_pump_iter E (Inr (pkt, peer)) s))
            = (routes s)(IP_String (Src h) \<mapsto> peer)
          \<and> logs (snd (conn_pump_iter E (Inr (pkt, peer)) s))
            = logs s @ (if Debug E then [LogDebugIn peer h] else [])
          \<and> routes (run E sched (snd (conn_pump_iter E (Inr (pkt, peer)) s))) (IP_String (Src h))
            = Some peer
      | Some first \<Rightarrow>
          routes_LoadOrStore (routes s) (IP_String (Src h)) peer = ((first, True), routes s)
          \<and> routes (snd (conn_pump_iter E (Inr (pkt, peer)) s)) = routes s
          \<and> logs (snd (conn_pump_iter E (Inr (pkt, peer)) s))
            = logs s @ (if Debug E then [LogDebugIn peer h] else [])
                @ (if addr_String first \<noteq> addr_String peer
                   then [LogUnexpectedMapping peer (IP_String (Dst h)) peer (addr_String first)]
                   else [])
          \<and> routes (run E sched (snd (conn_pump_iter E (Inr (pkt, peer)) s))) (IP_String (Src h))
            = Some first
          \<and> routes (run E sched s) (IP_String (Src h)) = Some first)"
proof (cases "routes s (IP_String (Src h))")
  case None
  have "routes (snd (conn_pump_iter E (Inr (pkt, peer)) s)) (IP_String (Src h)) = Some peer"
    using None conn_iter_learn [OF assms, of peer] by simp
  then have "routes (run E sched (snd (conn_pump_iter E (Inr (pkt, peer)) s))) (IP_String (Src h))
      = Some peer"
    by (rule run_keeps_route)
  then show ?thesis
    using None conn_iter_learn [OF assms, of peer] by simp
next
  case (Some first)
  have "routes (snd (conn_pump_iter E (Inr (pkt, peer)) s)) (IP_String (Src h)) = Some first"
    using Some by (rule conn_iter_keeps_route)
  then have 1: "routes (run E sched (snd (conn_pump_iter E (Inr (pkt, peer)) s))) (IP_String (Src h))
      = Some first"
    by (rule run_keeps_route)
  have 2: "routes (run E sched s) (IP_String (Src h)) = Some first"
    using Some by (rule run_keeps_route)
  have 3: "routes_LoadOrStore (routes s) (IP_String (Src h)) peer = ((first, True), routes s)"
    using Some by (simp add: routes_LoadOrStore_def)
  show ?thesis
    using Some 1 2 3 conn_iter_learn [OF assms, of peer] by simp
qed

text \<open>A datagram from a second sender with the source IP of a stored route, and a first
  datagram on an empty table.\<close>

theorem first_mapping_retained_witness:
  "routes (snd (conn_pump_iter env0 (Inr (pkt_v4, NetAddr ''203.0.113.7:9000''))
            ((transportTun [] [] [] [])\<lparr>routes := [''10.0.0.9'' \<mapsto> NetAddr ''198.51.100.2:8421'']\<rparr>)))
     ''10.0.0.9'' = Some (NetAddr ''198.51.100.2:8421'')
   \<and> logs (snd (conn_pump_iter env0 (Inr (pkt_v4, NetAddr ''203.0.113.7:9000''))
            ((transportTun [] [] [] [])\<lparr>routes := [''10.0.0.9'' \<mapsto> NetAddr ''198.51.100.2:8421'']\<rparr>)))
     = [LogUnexpectedMapping (NetAddr ''203.0.113.7:9000'') ''10.0.0.5''
          (NetAddr ''203.0.113.7:9000'') ''198.51.100.2:8421'']
   \<and> routes (snd (conn_pump_iter env0 (Inr (pkt_v4, NetAddr ''198.51.100.2:8421''))
            (transportTun [] [] [] []))) ''10.0.0.9''
     = Some (NetAddr ''198.51.100.2:8421'')"
proof -
  have p: "parseHeader env0 (read_slice env0
       (sPool ((transportTun [] [] [] [])\<lparr>routes := [''10.0.0.9'' \<mapsto> NetAddr ''198.51.100.2:8421'']\<rparr>))
       pkt_v4) = Inr hdr_v4"
    by (simp add: transportTun_def read_slice_env0 env0_fields parse_pkt_v4)
  have q: "parseHeader env0 (read_slice env0 (sPool (transportTun [] [] [] [])) pkt_v4) = Inr hdr_v4"
    by (simp add: transportTun_def read_slice_env0 env0_fields parse_pkt_v4)
  have v: "Version hdr_v4 = 4" by (simp add: hdr_fields)
  show ?thesis
    using first_mapping_retained [OF p v, of "NetAddr ''203.0.113.7:9000''" "[]"]
      first_mapping_retained [OF q v, of "NetAddr ''198.51.100.2:8421''" "[]"]
    by (simp add: transportTun_def hdr_fields IP_String_examples env0_fields)
qed

section \<open>The result of the session\<close>

text \<open>
  Claim C4. At every point of every run of a session, under any schedule: if
  \<open>transportTun\<close> has returned, at least one error has been sent on the channel and the
  result is the first one sent, \<open>nil\<close> when that is \<open>io.EOF\<close> and the error itself
  otherwise; if it has not returned, then it keeps waiting while nothing has been sent,
  and once an error has been sent its next step returns that first error in the same way.
\<close>

theorem first_error_decides_result:
  "(case result (run E sched (transportTun sp mp tin cin)) of
      Some r \<Rightarrow>
        sent (run E sched (transportTun sp mp tin cin)) \<noteq> [] \<and>
        r = (if hd (sent (run E sched (transportTun sp mp tin cin))) = EOF then None
             else Some (hd (sent (run E sched (transportTun sp mp tin cin)))))
    | None \<Rightarrow>
        (case sent (run E sched (transportTun sp mp tin cin)) of
           [] \<Rightarrow> step E Caller (run E sched (transportTun sp mp tin cin))
                   = run E sched (transportTun sp mp tin cin)
         | e # es \<Rightarrow>
             result (step E Caller (run E sched (transportTun sp mp tin cin)))
               = Some (if e = EOF then None else Some e)))"
proof -
  define s where "s = run E sched (transportTun sp mp tin cin)"
  have inv: "chan_inv s"
    unfolding s_def by (rule run_chan_inv [OF transportTun_chan_inv])
  show ?thesis
    unfolding s_def [symmetric] using inv
    by (auto simp: chan_inv_def normalize_def step_main_def Logf_def
        split: option.splits list.splits)
qed

text \<open>The interface reaches end of stream first and the session returns \<open>nil\<close>; the
  transport fails first and the session returns that error.\<close>

theorem first_error_decides_result_witness:
  "result (run env0 [TunPump, TunPump, ConnPump, ConnPump, Caller, ConnPump]
            (transportTun [] [] [Inl EOF] [Inl (ErrorString ''connection refused'')]))
     = Some None
   \<and> sent (run env0 [TunPump, TunPump, ConnPump, ConnPump, Caller, ConnPump]
            (transportTun [] [] [Inl EOF] [Inl (ErrorString ''connection refused'')]))
     = [EOF, ErrorString ''connection refused'']
   \<and> result (run env0 [ConnPump, ConnPump, TunPump, Caller, TunPump]
            (transportTun [] [] [Inl EOF] [Inl (ErrorString ''connection refused'')]))
     = Some (Some (ErrorString ''connection refused''))"
  using first_error_decides_result [of env0 "[TunPump, TunPump, ConnPump, ConnPump, Caller, ConnPump]"
      "[]" "[]" "[Inl EOF]" "[Inl (ErrorString ''connection refused'')]"]
  by (simp add: transportTun_def step_tun_def step_conn_def step_main_def
      tun_iter_read_error conn_iter_read_error Logf_def normalize_def)

section \<open>The listener\<close>

lemma call_keeps_closed: "closed l = Closed \<Longrightarrow> closed (listener_call c l) = Closed"
  by (cases c) (simp_all add: Accept_def Close_def split: chan.splits)

lemma calls_keep_closed: "closed l = Closed \<Longrightarrow> closed (listener_calls cs l) = Closed"
  by (induction cs arbitrary: l) (simp_all add: call_keeps_closed)

lemma call_keeps_accepted: "accepted l = Closed \<Longrightarrow> accepted (listener_call c l) = Closed"
  by (cases c) (simp_all add: Accept_def Close_def split: chan.splits)

lemma calls_keep_accepted: "accepted l = Closed \<Longrightarrow> accepted (listener_calls cs l) = Closed"
  by (induction cs arbitrary: l) (simp_all add: call_keeps_accepted)

text \<open>
  Claim C8. On a listener whose \<open>closed\<close> channel is open, that is, on which \<open>Close\<close> has
  not been called, \<open>Close\<close> returns \<open>nil\<close> and closes the channel; after that, whatever calls
  are made in between, every call of \<open>Close\<close> returns the error "listener has been closed".
\<close>

theorem close_once:
  assumes "closed l = Open"
  shows "fst (Close l) = None
       \<and> closed (snd (Close l)) = Closed
       \<and> fst (Close (listener_calls cs (snd (Close l))))
           = Some (ErrorString ''listener has been closed'')"
proof -
  have 1: "closed (snd (Close l)) = Closed"
    using assms by (simp add: Close_def)
  have "closed (listener_calls cs (snd (Close l))) = Closed"
    using 1 by (rule calls_keep_closed)
  then have "fst (Close (listener_calls cs (snd (Close l))))
      = Some (ErrorString ''listener has been closed'')"
    by (simp add: Close_def)
  then show ?thesis
    using assms 1 by (simp add: Close_def)
qed

theorem close_once_witness:
  "closed listener0 = Open
   \<and> Close listener0 = (None, listener0\<lparr>closed := Closed\<rparr>)
   \<and> fst (Close (listener_calls [CallAccept, CallClose, CallAccept] (snd (Close listener0))))
       = Some (ErrorString ''listener has been closed'')"
proof -
  have o: "closed listener0 = Open" by (simp add: listener0_def)
  show ?thesis
    using close_once [OF o, of "[CallAccept, CallClose, CallAccept]"] o
    by (simp add: Close_def)
qed

text \<open>
  Claim C3, as amended. Once \<open>accepted\<close> is closed, which every call of \<open>Accept\<close> leaves
  it, a call of \<open>Accept\<close> never returns a connection: it returns the error "accept on
  closed listener" when \<open>closed\<close> is closed, and is parked otherwise; a parked call returns
  that error once \<open>Close\<close> has run.
\<close>

theorem accept_after_first:
  assumes "accepted l = Closed"
  shows "Accept (listener_calls cs l)
           = (case closed (listener_calls cs l) of
                Closed \<Rightarrow> Returns (Inl (ErrorString ''accept on closed listener''))
              | Open \<Rightarrow> Blocks,
              listener_calls cs l)
       \<and> fst (Accept (listener_calls cs l)) \<noteq> Returns (Inr c)
       \<and> Accept_wait (snd (Close (listener_calls cs l)))
           = Returns (Inl (ErrorString ''accept on closed listener''))
       \<and> accepted (snd (Accept l0)) = Closed"
proof -
  have a: "accepted (listener_calls cs l) = Closed"
    using assms by (rule calls_keep_accepted)
  have w: "Accept_wait (snd (Close l')) = Returns (Inl (ErrorString ''accept on closed listener''))"
    for l'
    by (simp add: Accept_wait_def Close_def split: chan.splits)
  have f: "accepted (snd (Accept l0)) = Closed"
    by (simp add: Accept_def split: chan.splits)
  show ?thesis
    using a w f by (simp add: Accept_def Accept_wait_def split: chan.splits)
qed

theorem accept_after_first_witness:
  "accepted (snd (Accept listener0)) = Closed
   \<and> Accept (snd (Accept listener0)) = (Blocks, listener0\<lparr>accepted := Closed\<rparr>)
   \<and> Accept (listener_calls [CallClose] (snd (Accept listener0)))
       = (Returns (Inl (ErrorString ''accept on closed listener'')),
          listener0\<lparr>accepted := Closed, closed := Closed\<rparr>)"
proof -
  have a: "accepted (snd (Accept listener0)) = Closed"
    by (simp add: Accept_def listener0_def)
  show ?thesis
    using accept_after_first [OF a, of "[]"] accept_after_first [OF a, of "[CallClose]"] a
    by (simp add: Accept_def Close_def listener0_def)
qed

text \<open>
  The claim as first stated, that any \<open>Accept\<close> after \<open>Close\<close> fails, does not hold for
  the first \<open>Accept\<close>: on a new listener that is closed at once, it returns the socket.
\<close>

theorem accept_on_closed_returns_connection:
  "closed (snd (Close listener0)) = Closed
   \<and> fst (Accept (snd (Close listener0))) = Returns (Inr (UDPConn (NetAddr ''0.0.0.0:8421'')))"
  by (simp add: Close_def Accept_def listener0_def)

section \<open>Deadlines\<close>

text \<open>
  Claim C9. On every \<open>tunConn\<close> and for every time, \<open>SetDeadline\<close>, \<open>SetReadDeadline\<close> and
  \<open>SetWriteDeadline\<close> return the \<open>net.OpError\<close> "set tun: deadline not supported", never
  \<open>nil\<close>.
\<close>

theorem deadlines_unsupported:
  "SetDeadline c t = Some (OpError ''set'' ''tun'' (ErrorString ''deadline not supported''))
   \<and> SetReadDeadline c t = Some (OpError ''set'' ''tun'' (ErrorString ''deadline not supported''))
   \<and> SetWriteDeadline c t = Some (OpError ''set'' ''tun'' (ErrorString ''deadline not supported''))
   \<and> SetDeadline c t \<noteq> None \<and> SetReadDeadline c t \<noteq> None \<and> SetWriteDeadline c t \<noteq> None"
  by (simp add: SetDeadline_def SetReadDeadline_def SetWriteDeadline_def)

theorem deadlines_unsupported_witness:
  "SetDeadline \<lparr>ifce = Interface ''tun0'', addr = NetAddr ''10.0.0.1''\<rparr> 0
     = Some (OpError ''set'' ''tun'' (ErrorString ''deadline not supported''))
   \<and> SetReadDeadline \<lparr>ifce = Interface ''tun0'', addr = NetAddr ''10.0.0.1''\<rparr> 0 \<noteq> None
   \<and> SetWriteDeadline \<lparr>ifce = Interface ''tun0'', addr = NetAddr ''10.0.0.1''\<rparr> 0 \<noteq> None"
  using deadlines_unsupported [of "\<lparr>ifce = Interface ''tun0'', addr = NetAddr ''10.0.0.1''\<rparr>" 0]
  by simp

section \<open>A connection that is not a packet connection\<close>

text \<open>
  Claim C10. Given a connection that is not a \<open>net.PacketConn\<close>, \<open>Handle\<close> logs the wrong
  connection type and returns: it does not call \<open>createTun\<close> (no address is parsed, no
  interface is made or set up), picks no cipher and does not start the relay. Only its
  two deferred calls follow, \<open>conn.Close()\<close> and \<open>os.Exit(0)\<close>.
\<close>

theorem wrong_connection_type:
  "Handle S h (OtherConn a) = [EvLogWrongConnType, EvConnClose, EvExit 0]
   \<and> EvParseCIDR cidr \<notin> set (Handle S h (OtherConn a))
   \<and> EvWaterNew n \<notin> set (Handle S h (OtherConn a))
   \<and> EvSetup args \<notin> set (Handle S h (OtherConn a))
   \<and> EvPickCipher m p \<notin> set (Handle S h (OtherConn a))
   \<and> EvTransportTun tc pc ra \<notin> set (Handle S h (OtherConn a))"
  by (simp add: Handle_def)

text \<open>The same handler on a connection of the wrong type and on a packet connection.\<close>

theorem wrong_connection_type_witness:
  "Handle sys0 handler0 (OtherConn (NetAddr ''127.0.0.1:5000''))
     = [EvLogWrongConnType, EvConnClose, EvExit 0]
   \<and> Handle sys0 handler0 (PacketConnOf (UDPConn (NetAddr ''0.0.0.0:8421'')))
     = [EvParseCIDR ''10.0.0.1/24'', EvWaterNew ''tun0'',
        EvSetup [''link'', ''set'', ''dev'', ''tun0'', ''mtu'', ''1350''],
        EvSetup [''addr'', ''add'', ''10.0.0.1/24'', ''dev'', ''tun0''],
        EvSetup [''link'', ''set'', ''dev'', ''tun0'', ''up''],
        EvLogTunCreated (NetAddr ''10.0.0.1'') (NetAddr ''0.0.0.0:8421''),
        EvResolveUDPAddr ''192.0.2.1:8421'',
        EvPickCipher ''chacha20'' ''secret'',
        EvTransportTun \<lparr>ifce = Interface ''tun0'', addr = NetAddr ''10.0.0.1''\<rparr>
          (Ciphered (Cipher ''chacha20'') (Plain (UDPConn (NetAddr ''0.0.0.0:8421''))))
          (Some (NetAddr ''192.0.2.1:8421'')),
        EvTunClose, EvConnClose, EvExit 0]"
proof -
  have c: "createTun sys0 handler0 =
      (Inr \<lparr>ifce = Interface ''tun0'', addr = NetAddr ''10.0.0.1''\<rparr>,
       [EvParseCIDR ''10.0.0.1/24'', EvWaterNew ''tun0'',
        EvSetup [''link'', ''set'', ''dev'', ''tun0'', ''mtu'', ''1350''],
        EvSetup [''addr'', ''add'', ''10.0.0.1/24'', ''dev'', ''tun0''],
        EvSetup [''link'', ''set'', ''dev'', ''tun0'', ''up'']])"
    by (simp add: createTun_def sys0_def handler0_def Itoa_1350 IP_String_examples)
  show ?thesis
    using wrong_connection_type [of sys0 handler0 "NetAddr ''127.0.0.1:5000''"]
    by (simp add: Handle_def c LocalAddr_def) (simp add: sys0_def handler0_def)
qed

end
